theory Spec2Isabelle
  imports Main
begin

section \<open>JavaScript values shared by the three source files\<close>

text \<open>
  An \<open>Error\<close> object is identified by its class and its message. \<open>OperationCancelled\<close>
  is the cancellation error of the polling loop, \<open>RegistrationFailed\<close> the error a terminal
  failure status ends with (it carries the status).
\<close>

datatype js_error =
    GenericError string
  | ReferenceError string
  | ArgumentError string
  | TypeError string
  | OperationCancelled
  | RegistrationFailed string

text \<open>
  The values the untyped parameters of the service client can receive. A function is
  identified by a number, an object by its fields.
\<close>

datatype js_value =
    Undefined
  | Null
  | JsBool bool
  | JsNumber int
  | JsString string
  | JsFunction nat
  | JsObject "(string \<times> js_value) list"

fun truthy :: "js_value \<Rightarrow> bool" where
  "truthy Undefined = False"
| "truthy Null = False"
| "truthy (JsBool b) = b"
| "truthy (JsNumber n) = (n \<noteq> 0)"
| "truthy (JsString s) = (s \<noteq> [])"
| "truthy (JsFunction f) = True"
| "truthy (JsObject fs) = True"

fun is_string :: "js_value \<Rightarrow> bool" where
  "is_string (JsString s) = True"
| "is_string v = False"

fun is_function :: "js_value \<Rightarrow> bool" where
  "is_function (JsFunction f) = True"
| "is_function v = False"

text \<open>Property access \<open>o.name\<close>: \<open>undefined\<close> when the property is missing.\<close>

fun property :: "js_value \<Rightarrow> string \<Rightarrow> js_value" where
  "property (JsObject fs) name = (case map_of fs name of Some v \<Rightarrow> v | None \<Rightarrow> Undefined)"
| "property v name = Undefined"

section \<open>promise\_utils.ts: doubleValueCallbackToPromise\<close>

text \<open>
  A result handed to a callback is an \<open>Error\<close> object or some other value; that is all
  \<open>instanceof Error\<close> looks at.
\<close>

datatype 'a result_value = ErrorObject js_error | Plain 'a

fun instanceof_Error :: "'a result_value \<Rightarrow> bool" where
  "instanceof_Error (ErrorObject e) = True"
| "instanceof_Error (Plain v) = False"

text \<open>
  A promise is pending until the first \<open>resolve\<close> or \<open>reject\<close>; both do nothing on a
  settled promise.
\<close>

datatype 'p promise = Pending | Fulfilled 'p | Rejected js_error

fun resolve :: "'p \<Rightarrow> 'p promise \<Rightarrow> 'p promise" where
  "resolve v Pending = Fulfilled v"
| "resolve v p = p"

fun reject :: "js_error \<Rightarrow> 'p promise \<Rightarrow> 'p promise" where
  "reject e Pending = Rejected e"
| "reject e p = p"

text \<open>
  The callback that \<open>doubleValueCallbackToPromise\<close> injects (lines 171 to 181). Neither
  \<open>if\<close> returns, so all three statements run in order on the promise.
\<close>

definition injected_callback ::
  "('a result_value \<Rightarrow> 'b result_value \<Rightarrow> 'p) \<Rightarrow> 'a result_value \<Rightarrow> 'b result_value
     \<Rightarrow> 'p promise \<Rightarrow> 'p promise" where
  "injected_callback packResults result1 result2 p =
     (let p1 = (case result1 of ErrorObject e \<Rightarrow> reject e p | Plain v \<Rightarrow> p);
          p2 = (case result2 of ErrorObject e \<Rightarrow> reject e p1 | Plain v \<Rightarrow> p1)
      in resolve (packResults result1 result2) p2)"

text \<open>
  \<open>callBackOperation\<close> is given by the argument pairs with which it invokes the callback
  it receives, in order. With a \<open>userCallback\<close> the operation runs on it and nothing is
  returned; without one the promise is returned, settled by the injected callback.
\<close>

datatype ('c, 'p) returned = Void "'c list" | Promise "'p promise"

definition doubleValueCallbackToPromise ::
  "('a result_value \<times> 'b result_value) list \<Rightarrow> ('a result_value \<Rightarrow> 'b result_value \<Rightarrow> 'p)
     \<Rightarrow> nat option \<Rightarrow> (nat \<times> 'a result_value \<times> 'b result_value, 'p) returned" where
  "doubleValueCallbackToPromise callBackOperation packResults userCallback =
     (case userCallback of
        Some cb \<Rightarrow> Void (map (\<lambda>(r1, r2). (cb, r1, r2)) callBackOperation)
      | None \<Rightarrow>
          Promise (foldl (\<lambda>p (r1, r2). injected_callback packResults r1 r2 p)
                     Pending callBackOperation))"

section \<open>provisioningserviceclient.ts: the delete methods\<close>

record api_call =
  http_method :: string
  path :: string
  httpHeaders :: "(string \<times> js_value) list"
  requestBody :: js_value
  suppliedCallback :: js_value

definition enrollmentGroupsPrefix :: string where
  "enrollmentGroupsPrefix = ''/enrollmentGroups/''"

definition enrollmentsPrefix :: string where
  "enrollmentsPrefix = ''/enrollments/''"

definition registrationsPrefix :: string where
  "registrationsPrefix = ''/registrations/''"

definition versionQueryString :: string where
  "versionQueryString = ''?api-version=2018-04-01''"

text \<open>
  The first half of \<open>_delete\<close> (lines 288 to 411): it throws or fixes \<open>id\<close>, \<open>ifMatch\<close> and
  \<open>suppliedCallback\<close>. The message of the \<open>ReferenceError\<close> is written without the
  argument that the source puts into it.
\<close>

definition delete_arguments ::
  "string \<Rightarrow> js_value \<Rightarrow> js_value \<Rightarrow> js_value \<Rightarrow> js_error + (js_value \<times> js_value \<times> js_value)" where
  "delete_arguments endpointPrefix enrollmentOrIdOrRegistration etagOrCallback deleteCallback =
     (if \<not> truthy enrollmentOrIdOrRegistration then
        Inl (ReferenceError ''Required parameter was null or undefined when calling delete.'')
      else if is_string enrollmentOrIdOrRegistration then
        (if \<not> truthy etagOrCallback then
           Inr (enrollmentOrIdOrRegistration, Undefined, Undefined)
         else if is_string etagOrCallback then
           (if \<not> truthy deleteCallback then
              Inr (enrollmentOrIdOrRegistration, etagOrCallback, Undefined)
            else if \<not> is_function deleteCallback then
              Inl (ArgumentError ''Third argument of this delete method must be a function.'')
            else Inr (enrollmentOrIdOrRegistration, etagOrCallback, deleteCallback))
         else if is_function etagOrCallback then
           Inr (enrollmentOrIdOrRegistration, Undefined, etagOrCallback)
         else
           Inl (ArgumentError ''Second argument of this delete method must be a string or function.''))
      else
        (let id_or_error =
           (if endpointPrefix = enrollmentsPrefix then
              (if \<not> truthy (property enrollmentOrIdOrRegistration ''registrationId'') then
                 Inl (ArgumentError ''Required property 'registrationId' was null or undefined when calling delete.'')
               else Inr (property enrollmentOrIdOrRegistration ''registrationId''))
            else if endpointPrefix = enrollmentGroupsPrefix then
              (if \<not> truthy (property enrollmentOrIdOrRegistration ''enrollmentGroupId'') then
                 Inl (ArgumentError ''Required property 'enrollmentGroupId' was null or undefined when calling delete.'')
               else Inr (property enrollmentOrIdOrRegistration ''enrollmentGroupId''))
            else if endpointPrefix = registrationsPrefix then
              (if \<not> truthy (property enrollmentOrIdOrRegistration ''registrationId'') then
                 Inl (ArgumentError ''Required property 'registrationId' was null or undefined when calling delete.'')
               else Inr (property enrollmentOrIdOrRegistration ''registrationId''))
            else Inl (ArgumentError ''Invalid path specified for delete operation.''))
         in case id_or_error of
              Inl e \<Rightarrow> Inl e
            | Inr ident \<Rightarrow>
                (if \<not> truthy etagOrCallback then
                   Inr (ident,
                        (if truthy (property enrollmentOrIdOrRegistration ''etag'')
                         then property enrollmentOrIdOrRegistration ''etag'' else Undefined),
                        Undefined)
                 else if \<not> is_function etagOrCallback then
                   Inl (ArgumentError ''The second argument of this delete function if present MUST be a function.'')
                 else
                   Inr (ident,
                        (if truthy (property enrollmentOrIdOrRegistration ''etag'')
                         then property enrollmentOrIdOrRegistration ''etag'' else Undefined),
                        etagOrCallback))))"

text \<open>
  \<open>_delete\<close> (lines 280 to 430) up to its call of \<open>executeApiCall\<close>: the error thrown or
  the request issued, which keeps \<open>suppliedCallback\<close> for the completion.
  \<open>encodeURIComponent\<close> is the parameter \<open>enc\<close>.
\<close>

definition private_delete ::
  "(js_value \<Rightarrow> string) \<Rightarrow> string \<Rightarrow> js_value \<Rightarrow> js_value \<Rightarrow> js_value \<Rightarrow> js_error + api_call" where
  "private_delete enc endpointPrefix enrollmentOrIdOrRegistration etagOrCallback deleteCallback =
     (case delete_arguments endpointPrefix enrollmentOrIdOrRegistration etagOrCallback deleteCallback of
        Inl e \<Rightarrow> Inl e
      | Inr (ident, ifMatch, cb) \<Rightarrow>
          Inr \<lparr> http_method = ''DELETE'',
                path = endpointPrefix @ enc ident @ versionQueryString,
                httpHeaders = (if truthy ifMatch then [(''If-Match'', ifMatch)] else []),
                requestBody = Null,
                suppliedCallback = cb \<rparr>)"

text \<open>
  The completion passed to \<open>executeApiCall\<close> (lines 421 to 429), run with the \<open>err\<close> of the
  transport: the list of callback invocations it makes, each a callback and its argument.
\<close>

definition delete_completion :: "api_call \<Rightarrow> js_error option \<Rightarrow> (js_value \<times> js_error option) list" where
  "delete_completion call err =
     (if truthy (suppliedCallback call) then
        (case err of Some e \<Rightarrow> [(suppliedCallback call, Some e)]
                   | None \<Rightarrow> [(suppliedCallback call, None)])
      else [])"

definition deleteIndividualEnrollment ::
  "(js_value \<Rightarrow> string) \<Rightarrow> js_value \<Rightarrow> js_value \<Rightarrow> js_value \<Rightarrow> js_error + api_call" where
  "deleteIndividualEnrollment enc enrollmentOrId etagOrCallback deleteCallback =
     private_delete enc enrollmentsPrefix enrollmentOrId etagOrCallback deleteCallback"

definition deleteEnrollmentGroup ::
  "(js_value \<Rightarrow> string) \<Rightarrow> js_value \<Rightarrow> js_value \<Rightarrow> js_value \<Rightarrow> js_error + api_call" where
  "deleteEnrollmentGroup enc enrollmentGroupOrId etagOrCallback deleteCallback =
     private_delete enc enrollmentGroupsPrefix enrollmentGroupOrId etagOrCallback deleteCallback"

definition deleteDeviceRegistrationState ::
  "(js_value \<Rightarrow> string) \<Rightarrow> js_value \<Rightarrow> js_value \<Rightarrow> js_value \<Rightarrow> js_error + api_call" where
  "deleteDeviceRegistrationState enc idOrRegistrationState etagOrCallback deleteCallback =
     private_delete enc registrationsPrefix idOrRegistrationState etagOrCallback deleteCallback"

section \<open>x509\_registration.ts and the registration polling loop\<close>

subsection \<open>Data\<close>

type_synonym X509 = string
type_synonym RegistrationResult = string

record RegistrationRequest =
  registrationId :: string
  provisioningHost :: string
  idScope :: string

record DeviceRegistrationResult =
  registrationState :: RegistrationResult

text \<open>
  What the constructor stores (\<open>_provisioningHost\<close>, \<open>_idScope\<close>), what the security
  client answers to \<open>getRegistrationId\<close>, and the fixed delay the polling loop uses when
  the service sends no retry hint (the specification does not give its value).
\<close>

record X509Registration =
  client_provisioningHost :: string
  client_idScope :: string
  securityClient_registrationId :: string
  defaultPollingInterval :: nat

text \<open>
  What the service answers to the registration request or to a status check: a transport
  error, or a status. \<open>StatusAssigning\<close> carries the operation id and the retry-after hint
  in seconds, \<open>StatusFailed\<close> the terminal failure status.
\<close>

datatype response =
    TransportFailure js_error
  | StatusAssigned DeviceRegistrationResult
  | StatusFailed string
  | StatusAssigning string "nat option"

datatype request = InitialRequest RegistrationRequest | StatusRequest string

text \<open>
  The calls the registration makes on its collaborators and on the caller, in order. The
  calls that \<open>cancel\<close> makes on the transport are kept apart, in the attempt
  (\<open>transport_cancel_calls\<close>).
\<close>

datatype action =
    GetCertificate
  | SetAuthentication X509
  | RegistrationRequestSent RegistrationRequest
  | PollScheduled nat
  | StatusRequestSent string
  | PollTimerCleared
  | Disconnect
  | Callback "js_error option" "RegistrationResult option"
  | Thrown js_error

text \<open>
  What the collaborators and the caller do to a running attempt: the security client
  invokes the callback of \<open>getCertificate\<close> with \<open>(err, cert)\<close>, the service answers the
  outstanding request, the poll timer fires, the disconnect invokes its callback with
  \<open>disconnectErr\<close>, the caller calls \<open>cancel\<close> with a callback (a function, identified by a
  number).
\<close>

datatype event =
    CertificateCallback "js_error option" X509
  | ServiceResponse response
  | PollTimerFired
  | DisconnectCallback "js_error option"
  | Cancel nat

subsection \<open>The polling loop\<close>

datatype loop_phase = Idle | AwaitingInitialResponse | Polling | Terminal | Cancelled

text \<open>
  The state of one loop instance: its phase, the operation id most recently returned by
  the service, the pending poll timers (each by its delay in seconds) and the requests
  that are outstanding.
\<close>

record polling_loop =
  phase :: loop_phase
  operationId :: "string option"
  timers :: "nat list"
  requests :: "request list"

type_synonym completion = "js_error option \<times> DeviceRegistrationResult option"

definition idle_loop :: polling_loop where
  "idle_loop = \<lparr> phase = Idle, operationId = None, timers = [], requests = [] \<rparr>"

definition active :: "polling_loop \<Rightarrow> bool" where
  "active l = (phase l = AwaitingInitialResponse \<or> phase l = Polling)"

text \<open>
  Modelled from the spec: \<open>PollingStateMachine.register\<close> (polling\_state\_machine.ts is
  not among the sources). Idle, on \<open>register\<close>, becomes AwaitingInitialResponse and the
  registration request is issued. The specification gives \<open>register\<close> no transition from
  another state.
\<close>

definition loop_register :: "polling_loop \<Rightarrow> RegistrationRequest \<Rightarrow> polling_loop \<times> action list" where
  "loop_register l req =
     (if phase l = Idle then
        (l\<lparr>phase := AwaitingInitialResponse, requests := requests l @ [InitialRequest req]\<rparr>,
         [RegistrationRequestSent req])
      else (l, []))"

text \<open>
  Modelled from the spec: the loop's handling of a service response, in
  AwaitingInitialResponse and in Polling. \<open>assigned\<close>, a terminal failure status and a
  transport error make the loop Terminal and complete the registration (the third
  component is the pair \<open>(err, result)\<close> the completion callback of \<open>register\<close> is invoked
  with); \<open>assigning\<close> stores the operation id and schedules the next poll after the
  retry-after hint, or after the default when the hint is absent. A response that answers
  no outstanding request of an active loop (an abandoned request) changes nothing.
\<close>

definition loop_response ::
  "nat \<Rightarrow> polling_loop \<Rightarrow> response \<Rightarrow> polling_loop \<times> action list \<times> completion option" where
  "loop_response default_delay l r =
     (if active l \<and> requests l \<noteq> [] then
        (case r of
           TransportFailure e \<Rightarrow>
             (l\<lparr>phase := Terminal, requests := tl (requests l)\<rparr>, [], Some (Some e, None))
         | StatusAssigned res \<Rightarrow>
             (l\<lparr>phase := Terminal, requests := tl (requests l)\<rparr>, [], Some (None, Some res))
         | StatusFailed st \<Rightarrow>
             (l\<lparr>phase := Terminal, requests := tl (requests l)\<rparr>, [],
              Some (Some (RegistrationFailed st), None))
         | StatusAssigning opid retry_after \<Rightarrow>
             (let delay = (case retry_after of Some n \<Rightarrow> n | None \<Rightarrow> default_delay)
              in (l\<lparr>phase := Polling, operationId := Some opid,
                     requests := tl (requests l), timers := timers l @ [delay]\<rparr>,
                  [PollScheduled delay], None)))
      else (l, [], None))"

text \<open>
  Modelled from the spec: Polling, on timer fire, issues a status check with the operation
  id of the prior response (none is invented: without one nothing is sent).
\<close>

definition loop_timer_fired :: "polling_loop \<Rightarrow> polling_loop \<times> action list" where
  "loop_timer_fired l =
     (if phase l = Polling \<and> timers l \<noteq> [] then
        (case operationId l of
           Some opid \<Rightarrow>
             (l\<lparr>timers := tl (timers l), requests := requests l @ [StatusRequest opid]\<rparr>,
              [StatusRequestSent opid])
         | None \<Rightarrow> (l\<lparr>timers := tl (timers l)\<rparr>, []))
      else (l, []))"

text \<open>
  Modelled from the spec: \<open>cancel\<close> of the polling loop (polling\_state\_machine.ts is not
  among the sources). From AwaitingInitialResponse or Polling the loop becomes Cancelled:
  every pending timer is cleared, the outstanding request is abandoned, and the completion
  callback is invoked with a cancellation error. In every other state \<open>cancel\<close> is a no-op.
  \<open>X509Registration\<close> never calls it: its \<open>_cancel\<close> calls the transport only.
\<close>

definition loop_cancel :: "polling_loop \<Rightarrow> polling_loop \<times> action list \<times> completion option" where
  "loop_cancel l =
     (if active l then
        (l\<lparr>phase := Cancelled, timers := [], requests := []\<rparr>,
         map (\<lambda>t. PollTimerCleared) (timers l),
         Some (Some OperationCancelled, None))
      else (l, [], None))"

subsection \<open>X509Registration\<close>

text \<open>
  An attempt: whether the callback of \<open>getCertificate\<close> is still to come, the polling
  state machine, the closure of line 58 waiting for the disconnect, with the \<open>err\<close> and
  \<open>result\<close> it captured, and the calls of \<open>cancel\<close> made on the transport so far, each by
  the callback it was given.
\<close>

record attempt =
  certificate_pending :: bool
  loop :: polling_loop
  disconnecting :: "completion option"
  transport_cancel_calls :: "nat list"

definition new_attempt :: attempt where
  "new_attempt =
     \<lparr> certificate_pending = False, loop = idle_loop, disconnecting = None,
       transport_cancel_calls = [] \<rparr>"

text \<open>
  \<open>_register\<close>, line 42: the call of \<open>getCertificate\<close>. \<open>register\<close> with a callback is
  \<open>_register\<close> (line 76).
\<close>

definition x509_register :: "attempt \<Rightarrow> attempt \<times> action list" where
  "x509_register s = (s\<lparr>certificate_pending := True\<rparr>, [GetCertificate])"

text \<open>
  Lines 58 to 68, the body of the callback given to \<open>disconnect\<close>: \<open>disconnectErr\<close> is
  only logged. With neither \<open>err\<close> nor \<open>result\<close>, \<open>result.registrationState\<close> throws.
\<close>

definition disconnect_callback ::
  "js_error option \<Rightarrow> js_error option \<Rightarrow> DeviceRegistrationResult option \<Rightarrow> action list" where
  "disconnect_callback disconnectErr err result =
     (case err of
        Some e \<Rightarrow> [Callback (Some e) None]
      | None \<Rightarrow>
          (case result of
             Some r \<Rightarrow> [Callback None (Some (registrationState r))]
           | None \<Rightarrow> [Thrown (TypeError ''Cannot read property 'registrationState' of undefined'')]))"

text \<open>
  Lines 57 and 58, the callback given to \<open>this._pollingStateMachine.register\<close>: it calls
  \<open>disconnect\<close> and leaves the rest to the callback of the disconnect. This call is the
  tear-down that follows the completion callback of the loop in the Terminal state; the
  disconnect answers with the event \<open>DisconnectCallback\<close>.
\<close>

definition register_callback ::
  "attempt \<Rightarrow> js_error option \<Rightarrow> DeviceRegistrationResult option \<Rightarrow> attempt \<times> action list" where
  "register_callback s err result = (s\<lparr>disconnecting := Some (err, result)\<rparr>, [Disconnect])"

text \<open>
  What the polling state machine did in one step, seen from \<open>X509Registration\<close>: its new
  state, its actions, and, when it completed the registration, the run of the callback
  of line 57.
\<close>

definition with_loop :: "attempt \<Rightarrow> polling_loop \<times> action list \<times> completion option \<Rightarrow> attempt \<times> action list" where
  "with_loop s out =
     (case out of
        (l, acts, None) \<Rightarrow> (s\<lparr>loop := l\<rparr>, acts)
      | (l, acts, Some (err, result)) \<Rightarrow>
          (let (s', acts') = register_callback (s\<lparr>loop := l\<rparr>) err result
           in (s', acts @ acts')))"

text \<open>Lines 43 to 70, the callback given to \<open>getCertificate\<close>.\<close>

definition getCertificate_callback ::
  "X509Registration \<Rightarrow> attempt \<Rightarrow> js_error option \<Rightarrow> X509 \<Rightarrow> attempt \<times> action list" where
  "getCertificate_callback this s err cert =
     (case err of
        Some e \<Rightarrow> (s, [Callback (Some e) None])
      | None \<Rightarrow>
          (let request = \<lparr> registrationId = securityClient_registrationId this,
                           provisioningHost = client_provisioningHost this,
                           idScope = client_idScope this \<rparr>;
               (l, acts) = loop_register (loop s) request
           in (s\<lparr>loop := l\<rparr>, SetAuthentication cert # acts)))"

text \<open>
  \<open>_cancel\<close>, line 89: \<open>this._transport.cancel(callback)\<close> and nothing else. The polling
  state machine and the callback of the registration are not touched. The transports are
  not among the sources: what the transport does with the call is not part of
  \<open>X509Registration\<close>, and an error it gives to an outstanding request arrives as a
  \<open>ServiceResponse\<close>. \<open>cancel\<close> with a callback is \<open>_cancel\<close> (line 94).
\<close>

definition x509_cancel :: "nat \<Rightarrow> attempt \<Rightarrow> attempt" where
  "x509_cancel callback s =
     s\<lparr>transport_cancel_calls := transport_cancel_calls s @ [callback]\<rparr>"

text \<open>
  One event of a running attempt. Each collaborator invokes the callback it was given
  once: a certificate or a disconnect answer that no call is waiting for does not occur,
  and changes nothing here.
\<close>

fun step :: "X509Registration \<Rightarrow> attempt \<Rightarrow> event \<Rightarrow> attempt \<times> action list" where
  "step this s (CertificateCallback err cert) =
     (if certificate_pending s
      then getCertificate_callback this (s\<lparr>certificate_pending := False\<rparr>) err cert
      else (s, []))"
| "step this s (ServiceResponse r) =
     with_loop s (loop_response (defaultPollingInterval this) (loop s) r)"
| "step this s PollTimerFired =
     (let (l, acts) = loop_timer_fired (loop s) in (s\<lparr>loop := l\<rparr>, acts))"
| "step this s (DisconnectCallback disconnectErr) =
     (case disconnecting s of
        None \<Rightarrow> (s, [])
      | Some (err, result) \<Rightarrow>
          (s\<lparr>disconnecting := None\<rparr>, disconnect_callback disconnectErr err result))"
| "step this s (Cancel callback) = (x509_cancel callback s, [])"

fun state_after :: "X509Registration \<Rightarrow> attempt \<Rightarrow> event list \<Rightarrow> attempt" where
  "state_after this s [] = s"
| "state_after this s (ev # evs) = state_after this (fst (step this s ev)) evs"

fun trace :: "X509Registration \<Rightarrow> attempt \<Rightarrow> event list \<Rightarrow> action list" where
  "trace this s [] = []"
| "trace this s (ev # evs) = snd (step this s ev) @ trace this (fst (step this s ev)) evs"

text \<open>
  A registration attempt: \<open>register(callback)\<close> runs \<open>_register\<close> on a new instance, then
  the events arrive.
\<close>

definition attempt_state :: "X509Registration \<Rightarrow> event list \<Rightarrow> attempt" where
  "attempt_state this evs = state_after this (fst (x509_register new_attempt)) evs"

definition attempt_trace :: "X509Registration \<Rightarrow> event list \<Rightarrow> action list" where
  "attempt_trace this evs =
     snd (x509_register new_attempt) @ trace this (fst (x509_register new_attempt)) evs"

subsection \<open>Observations on a trace\<close>

fun is_callback :: "action \<Rightarrow> bool" where
  "is_callback (Callback err result) = True"
| "is_callback a = False"

fun is_disconnect :: "action \<Rightarrow> bool" where
  "is_disconnect Disconnect = True"
| "is_disconnect a = False"

fun is_disconnect_callback :: "event \<Rightarrow> bool" where
  "is_disconnect_callback (DisconnectCallback disconnectErr) = True"
| "is_disconnect_callback ev = False"

fun is_cancel :: "event \<Rightarrow> bool" where
  "is_cancel (Cancel callback) = True"
| "is_cancel ev = False"

text \<open>The callbacks of the calls of \<open>cancel\<close> in a run, in their order.\<close>

fun cancel_callbacks :: "event list \<Rightarrow> nat list" where
  "cancel_callbacks [] = []"
| "cancel_callbacks (Cancel callback # evs) = callback # cancel_callbacks evs"
| "cancel_callbacks (ev # evs) = cancel_callbacks evs"

text \<open>The part of an attempt that the registration reads and writes.\<close>

definition registration_of :: "attempt \<Rightarrow> bool \<times> polling_loop \<times> completion option" where
  "registration_of s = (certificate_pending s, loop s, disconnecting s)"

text \<open>The invocations of the caller's callback in a trace.\<close>

definition callbacks :: "action list \<Rightarrow> action list" where
  "callbacks acts = filter is_callback acts"

text \<open>The disconnects and the invocations of the caller's callback, in their order.\<close>

definition teardown_view :: "action list \<Rightarrow> action list" where
  "teardown_view acts = filter (\<lambda>a. is_disconnect a \<or> is_callback a) acts"

text \<open>Every action that satisfies \<open>Q\<close> has one that satisfies \<open>P\<close> before it.\<close>

fun preceded_by :: "(action \<Rightarrow> bool) \<Rightarrow> (action \<Rightarrow> bool) \<Rightarrow> action list \<Rightarrow> bool" where
  "preceded_by P Q [] = True"
| "preceded_by P Q (a # acts) = (P a \<or> (\<not> Q a \<and> preceded_by P Q acts))"

text \<open>
  Nothing is outstanding: no certificate, no request, no timer and no disconnect is
  awaited.
\<close>

definition quiescent :: "attempt \<Rightarrow> bool" where
  "quiescent s =
     (\<not> certificate_pending s \<and> timers (loop s) = [] \<and> requests (loop s) = []
      \<and> disconnecting s = None)"

text \<open>
  What holds of an attempt and the disconnects and callbacks it has made so far, after
  every event.
\<close>

definition attempt_inv :: "attempt \<Rightarrow> action list \<Rightarrow> bool" where
  "attempt_inv s view =
     (case phase (loop s) of
        Idle \<Rightarrow>
          timers (loop s) = [] \<and> requests (loop s) = [] \<and> disconnecting s = None
          \<and> (if certificate_pending s then view = []
              else length view = 1 \<and> list_all is_callback view)
      | AwaitingInitialResponse \<Rightarrow>
          timers (loop s) = [] \<and> length (requests (loop s)) = 1 \<and> disconnecting s = None
          \<and> \<not> certificate_pending s \<and> view = []
      | Polling \<Rightarrow>
          operationId (loop s) \<noteq> None
          \<and> (timers (loop s) = [] \<and> length (requests (loop s)) = 1
               \<or> length (timers (loop s)) = 1 \<and> requests (loop s) = [])
          \<and> disconnecting s = None \<and> \<not> certificate_pending s \<and> view = []
      | Terminal \<Rightarrow>
          timers (loop s) = [] \<and> requests (loop s) = [] \<and> \<not> certificate_pending s
          \<and> (case disconnecting s of
                Some (err, result) \<Rightarrow> view = [Disconnect] \<and> (err \<noteq> None \<or> result \<noteq> None)
              | None \<Rightarrow> length view = 2 \<and> view ! 0 = Disconnect \<and> is_callback (view ! 1))
      | Cancelled \<Rightarrow>
          timers (loop s) = [] \<and> requests (loop s) = [] \<and> \<not> certificate_pending s
          \<and> (case disconnecting s of
                Some (err, result) \<Rightarrow> view = [Disconnect] \<and> (err \<noteq> None \<or> result \<noteq> None)
              | None \<Rightarrow> length view = 2 \<and> view ! 0 = Disconnect \<and> is_callback (view ! 1)))"

text \<open>A client and a certificate for the example runs.\<close>

definition example_client :: X509Registration where
  "example_client =
     \<lparr> client_provisioningHost = ''dps.example.net'', client_idScope = ''0ne00'',
       securityClient_registrationId = ''device-1'', defaultPollingInterval = 2 \<rparr>"

definition example_request :: RegistrationRequest where
  "example_request =
     \<lparr> registrationId = ''device-1'', provisioningHost = ''dps.example.net'',
       idScope = ''0ne00'' \<rparr>"

section \<open>Properties of doubleValueCallbackToPromise\<close>

lemma injected_callback_settled:
  "p \<noteq> Pending \<Longrightarrow> injected_callback packResults r1 r2 p = p"
  by (cases p; cases r1; cases r2) (simp_all add: injected_callback_def)

lemma settled_stays:
  "p \<noteq> Pending \<Longrightarrow> foldl (\<lambda>p (r1, r2). injected_callback packResults r1 r2 p) p calls = p"
  by (induction calls arbitrary: p) (auto simp: injected_callback_settled)

text \<open>
  C10. \<open>doubleValueCallbackToPromise\<close> without a \<open>userCallback\<close>: when the injected
  callback is invoked (for the first time, on the pending promise) with a first result that
  is an \<open>Error\<close>, the promise is rejected with that error, whatever the second result is and
  whatever the operation passes to the callback later: the \<open>resolve\<close> that follows and every
  later invocation find the promise settled. When neither result is an \<open>Error\<close>, the promise
  is fulfilled with \<open>packResults\<close> of the two results.
\<close>

theorem doubleValueCallbackToPromise_first_invocation:
  "doubleValueCallbackToPromise ((ErrorObject e, result2) # later) packResults None
     = Promise (Rejected e)
   \<and> (\<not> instanceof_Error result1 \<and> \<not> instanceof_Error result2'
        \<longrightarrow> doubleValueCallbackToPromise ((result1, result2') # later) packResults None
            = Promise (Fulfilled (packResults result1 result2')))"
proof (intro conjI impI)
  have "injected_callback packResults (ErrorObject e) result2 Pending = Rejected e"
    by (cases result2) (simp_all add: injected_callback_def)
  then show "doubleValueCallbackToPromise ((ErrorObject e, result2) # later) packResults None
     = Promise (Rejected e)"
    by (simp add: doubleValueCallbackToPromise_def settled_stays)
next
  assume a: "\<not> instanceof_Error result1 \<and> \<not> instanceof_Error result2'"
  then have "injected_callback packResults result1 result2' Pending
               = Fulfilled (packResults result1 result2')"
    by (cases result1; cases result2') (simp_all add: injected_callback_def)
  then show "doubleValueCallbackToPromise ((result1, result2') # later) packResults None
            = Promise (Fulfilled (packResults result1 result2'))"
    by (simp add: doubleValueCallbackToPromise_def settled_stays)
qed

text \<open>An operation that reports an error first, and one that reports two values first.\<close>

theorem doubleValueCallbackToPromise_first_invocation_witness:
  "doubleValueCallbackToPromise
       [(ErrorObject (GenericError ''boom''), Plain (1::nat)), (Plain (2::nat), Plain 3)]
       (\<lambda>a b. (a, b)) None
     = Promise (Rejected (GenericError ''boom''))
   \<and> \<not> instanceof_Error (Plain (2::nat)) \<and> \<not> instanceof_Error (Plain (3::nat))
   \<and> doubleValueCallbackToPromise
       [(Plain (2::nat), Plain (3::nat)), (ErrorObject (GenericError ''late''), Plain 4)]
       (\<lambda>a b. (a, b)) None
     = Promise (Fulfilled (Plain 2, Plain 3))"
  using doubleValueCallbackToPromise_first_invocation
          [of "GenericError ''boom''" "Plain (1::nat)" "[(Plain (2::nat), Plain (3::nat))]"
              "\<lambda>a b. (a, b)" "Plain (2::nat)" "Plain (3::nat)"]
        doubleValueCallbackToPromise_first_invocation
          [of "GenericError ''boom''" "Plain (1::nat)"
              "[(ErrorObject (GenericError ''late''), Plain (4::nat))]"
              "\<lambda>a b. (a, b)" "Plain (2::nat)" "Plain (3::nat)"]
  by simp

section \<open>Properties of the delete methods\<close>

text \<open>
  C9. \<open>deleteIndividualEnrollment\<close>, \<open>deleteEnrollmentGroup\<close> and
  \<open>deleteDeviceRegistrationState\<close>, called with a string id (not the empty string, which is
  falsy and rejected with a \<open>ReferenceError\<close> at line 288) and a falsy second argument:
  whatever the third argument is, the DELETE request is issued without an \<open>If-Match\<close>
  header and with \<open>suppliedCallback\<close> undefined, so its completion invokes no callback,
  whether the request failed or not.
\<close>

theorem delete_with_falsy_second_argument:
  assumes "ident \<noteq> []" and "\<not> truthy etagOrCallback"
  shows "deleteIndividualEnrollment enc (JsString ident) etagOrCallback deleteCallback
           = Inr \<lparr> http_method = ''DELETE'',
                   path = enrollmentsPrefix @ enc (JsString ident) @ versionQueryString,
                   httpHeaders = [], requestBody = Null, suppliedCallback = Undefined \<rparr>
       \<and> deleteEnrollmentGroup enc (JsString ident) etagOrCallback deleteCallback
           = Inr \<lparr> http_method = ''DELETE'',
                   path = enrollmentGroupsPrefix @ enc (JsString ident) @ versionQueryString,
                   httpHeaders = [], requestBody = Null, suppliedCallback = Undefined \<rparr>
       \<and> deleteDeviceRegistrationState enc (JsString ident) etagOrCallback deleteCallback
           = Inr \<lparr> http_method = ''DELETE'',
                   path = registrationsPrefix @ enc (JsString ident) @ versionQueryString,
                   httpHeaders = [], requestBody = Null, suppliedCallback = Undefined \<rparr>
       \<and> delete_completion
             \<lparr> http_method = m, path = p, httpHeaders = h, requestBody = b,
               suppliedCallback = Undefined \<rparr> err = []"
  using assms
  by (simp add: deleteIndividualEnrollment_def deleteEnrollmentGroup_def
        deleteDeviceRegistrationState_def private_delete_def delete_arguments_def
        delete_completion_def)

text \<open>An empty etag and a callback in third place: the callback is never invoked.\<close>

theorem delete_with_falsy_second_argument_witness:
  "''device-1'' \<noteq> [] \<and> \<not> truthy (JsString [])
   \<and> deleteIndividualEnrollment (\<lambda>v. case v of JsString s \<Rightarrow> s | _ \<Rightarrow> [])
        (JsString ''device-1'') (JsString []) (JsFunction 7)
       = Inr \<lparr> http_method = ''DELETE'', path = ''/enrollments/device-1?api-version=2018-04-01'',
               httpHeaders = [], requestBody = Null, suppliedCallback = Undefined \<rparr>
   \<and> delete_completion
        \<lparr> http_method = ''DELETE'', path = ''/enrollments/device-1?api-version=2018-04-01'',
          httpHeaders = [], requestBody = Null, suppliedCallback = Undefined \<rparr> (Some (GenericError ''gone'')) = []"
proof -
  have h1: "''device-1'' \<noteq> []" by simp
  have h2: "\<not> truthy (JsString [])" by simp
  from delete_with_falsy_second_argument
         [OF h1 h2, of "\<lambda>v. case v of JsString s \<Rightarrow> s | _ \<Rightarrow> []" "JsFunction 7"
            "''DELETE''" "''/enrollments/device-1?api-version=2018-04-01''" "[]" Null
            "Some (GenericError ''gone'')"]
  show ?thesis
    by (simp add: enrollmentsPrefix_def versionQueryString_def)
qed

section \<open>Properties of a registration attempt\<close>

subsection \<open>Auxiliary facts\<close>

lemmas loop_defs = loop_register_def loop_response_def loop_timer_fired_def
  active_def with_loop_def register_callback_def getCertificate_callback_def x509_cancel_def
  disconnect_callback_def

lemma teardown_view_append: "teardown_view (xs @ ys) = teardown_view xs @ teardown_view ys"
  by (simp add: teardown_view_def)

lemma inv_step:
  assumes "attempt_inv s v"
  shows "attempt_inv (fst (step this s ev)) (v @ teardown_view (snd (step this s ev)))"
proof (cases ev)
  case (CertificateCallback err cert)
  then show ?thesis using assms
    by (cases "phase (loop s)")
       (auto simp: attempt_inv_def loop_defs teardown_view_def Let_def split: option.splits if_splits prod.splits)
next
  case (ServiceResponse r)
  then show ?thesis using assms
    by (cases "phase (loop s)"; cases r)
       (auto simp: attempt_inv_def loop_defs teardown_view_def Let_def length_Suc_conv split: option.splits if_splits)
next
  case PollTimerFired
  then show ?thesis using assms
    by (cases "phase (loop s)")
       (auto simp: attempt_inv_def loop_defs teardown_view_def Let_def length_Suc_conv split: option.splits if_splits)
next
  case (DisconnectCallback d)
  then show ?thesis using assms
    by (cases "phase (loop s)")
       (auto simp: attempt_inv_def loop_defs teardown_view_def Let_def nth_append split: option.splits if_splits)
next
  case (Cancel callback)
  then show ?thesis using assms
    by (cases "phase (loop s)")
       (auto simp: attempt_inv_def x509_cancel_def teardown_view_def split: option.splits if_splits)
qed

lemma inv_run:
  "attempt_inv s v \<Longrightarrow> attempt_inv (state_after this s evs) (v @ teardown_view (trace this s evs))"
proof (induction evs arbitrary: s v)
  case Nil
  then show ?case by (simp add: teardown_view_def)
next
  case (Cons ev evs)
  from inv_step[OF Cons.prems] 
  have "attempt_inv (fst (step this s ev)) (v @ teardown_view (snd (step this s ev)))" .
  from Cons.IH[OF this] show ?case by (simp add: teardown_view_append)
qed

lemma inv_attempt: "attempt_inv (attempt_state this evs) (teardown_view (attempt_trace this evs))"
proof -
  have "attempt_inv (fst (x509_register new_attempt)) []"
    by (simp add: attempt_inv_def x509_register_def new_attempt_def idle_loop_def)
  from inv_run[OF this] show ?thesis
    by (simp add: attempt_state_def attempt_trace_def teardown_view_append)
       (simp add: teardown_view_def x509_register_def)
qed

lemma state_after_append:
  "state_after this s (xs @ ys) = state_after this (state_after this s xs) ys"
  by (induction xs arbitrary: s) simp_all

lemma trace_append:
  "trace this s (xs @ ys) = trace this s xs @ trace this (state_after this s xs) ys"
  by (induction xs arbitrary: s) simp_all

lemma attempt_state_append:
  "attempt_state this (xs @ ys) = state_after this (attempt_state this xs) ys"
  by (simp add: attempt_state_def state_after_append)

lemma attempt_trace_append:
  "attempt_trace this (xs @ ys) = attempt_trace this xs @ trace this (attempt_state this xs) ys"
  by (simp add: attempt_state_def attempt_trace_def trace_append)

text \<open>
  Once the certificate is in and the loop is not active, only the answer of the disconnect
  makes the attempt act.
\<close>

lemma settled_step:
  assumes "\<not> certificate_pending s" and "\<not> active (loop s)"
  shows "snd (step this s ev) =
           (case disconnecting s of
              None \<Rightarrow> []
            | Some (err, res) \<Rightarrow>
                if is_disconnect_callback ev then disconnect_callback None err res else [])
         \<and> loop (fst (step this s ev)) = loop s
         \<and> \<not> certificate_pending (fst (step this s ev))
         \<and> disconnecting (fst (step this s ev))
             = (if is_disconnect_callback ev then None else disconnecting s)"
  using assms
  by (cases ev)
     (auto simp: loop_defs Let_def split: option.splits)

lemma settled_trace:
  assumes "\<not> certificate_pending s" and "\<not> active (loop s)"
  shows "trace this s evs =
           (case disconnecting s of
              None \<Rightarrow> []
            | Some (err, res) \<Rightarrow>
                if list_ex is_disconnect_callback evs then disconnect_callback None err res else [])
         \<and> loop (state_after this s evs) = loop s
         \<and> \<not> certificate_pending (state_after this s evs)"
  using assms
proof (induction evs arbitrary: s)
  case Nil
  then show ?case by (simp split: option.splits)
next
  case (Cons ev evs)
  let ?t = "fst (step this s ev)"
  note st = settled_step[OF Cons.prems, of this ev]
  from st Cons.prems have t: "\<not> certificate_pending ?t" "\<not> active (loop ?t)" by simp_all
  note ih = Cons.IH[OF t]
  show ?case
  proof (cases "disconnecting s")
    case None
    with st ih show ?thesis by simp
  next
    case (Some c)
    obtain err res where c: "c = (err, res)" by (cases c)
    show ?thesis
    proof (cases "is_disconnect_callback ev")
      case True
      with st ih Some c show ?thesis by simp
    next
      case False
      with st ih Some c show ?thesis by simp
    qed
  qed
qed

text \<open>A call of \<open>cancel\<close> does not change what the registration does.\<close>

lemma step_registration:
  assumes "registration_of s = registration_of t"
  shows "snd (step this s ev) = snd (step this t ev)
         \<and> registration_of (fst (step this s ev)) = registration_of (fst (step this t ev))"
proof -
  from assms have c: "certificate_pending s = certificate_pending t"
    and l: "loop s = loop t" and d: "disconnecting s = disconnecting t"
    by (simp_all add: registration_of_def)
  show ?thesis
  proof (cases ev)
    case (CertificateCallback err cert)
    obtain l' acts where r: "loop_register (loop t)
        \<lparr> registrationId = securityClient_registrationId this,
          provisioningHost = client_provisioningHost this,
          idScope = client_idScope this \<rparr> = (l', acts)"
      by (cases "loop_register (loop t)
        \<lparr> registrationId = securityClient_registrationId this,
          provisioningHost = client_provisioningHost this,
          idScope = client_idScope this \<rparr>")
    show ?thesis
      using CertificateCallback c l d r
      by (cases err) (simp_all add: getCertificate_callback_def registration_of_def)
  next
    case (ServiceResponse r)
    obtain l' acts dn where o: "loop_response (defaultPollingInterval this) (loop t) r = (l', acts, dn)"
      by (cases "loop_response (defaultPollingInterval this) (loop t) r")
    show ?thesis
    proof (cases dn)
      case None
      with ServiceResponse c l d o show ?thesis
        by (simp add: with_loop_def registration_of_def)
    next
      case (Some p)
      obtain err res where "p = (err, res)" by (cases p)
      with Some ServiceResponse c l d o show ?thesis
        by (simp add: with_loop_def register_callback_def registration_of_def)
    qed
  next
    case PollTimerFired
    obtain l' acts where "loop_timer_fired (loop t) = (l', acts)"
      by (cases "loop_timer_fired (loop t)")
    with PollTimerFired c l d show ?thesis
      by (simp add: registration_of_def)
  next
    case (DisconnectCallback disconnectErr)
    show ?thesis
    proof (cases "disconnecting t")
      case None
      with DisconnectCallback c l d show ?thesis by (simp add: registration_of_def)
    next
      case (Some p)
      obtain err res where "p = (err, res)" by (cases p)
      with Some DisconnectCallback c l d show ?thesis by (simp add: registration_of_def)
    qed
  next
    case (Cancel callback)
    with c l d show ?thesis by (simp add: registration_of_def x509_cancel_def)
  qed
qed

lemma trace_registration:
  assumes "registration_of s = registration_of t"
  shows "trace this s evs = trace this t evs
         \<and> registration_of (state_after this s evs) = registration_of (state_after this t evs)"
  using assms
proof (induction evs arbitrary: s t)
  case Nil
  then show ?case by simp
next
  case (Cons ev evs)
  note st = step_registration[OF Cons.prems, of this ev]
  from st have "registration_of (fst (step this s ev)) = registration_of (fst (step this t ev))"
    by simp
  from Cons.IH[OF this] st show ?case by simp
qed

lemma step_keeps_cancel_calls:
  "\<not> is_cancel ev \<Longrightarrow> transport_cancel_calls (fst (step this s ev)) = transport_cancel_calls s"
proof (cases ev)
  case (CertificateCallback err cert)
  then show ?thesis
    by (cases err) (simp_all add: getCertificate_callback_def Let_def split: prod.splits)
next
  case (ServiceResponse r)
  obtain l' acts dn where o: "loop_response (defaultPollingInterval this) (loop s) r = (l', acts, dn)"
    by (cases "loop_response (defaultPollingInterval this) (loop s) r")
  with ServiceResponse show ?thesis
    by (cases dn) (auto simp: with_loop_def register_callback_def)
next
  case PollTimerFired
  then show ?thesis by (simp split: prod.splits)
next
  case (DisconnectCallback disconnectErr)
  then show ?thesis by (simp split: option.splits)
next
  case (Cancel callback)
  assume "\<not> is_cancel ev"
  with Cancel show ?thesis by simp
qed

lemma cancels_apart:
  "trace this s evs = trace this s (filter (\<lambda>ev. \<not> is_cancel ev) evs)
   \<and> registration_of (state_after this s evs)
       = registration_of (state_after this s (filter (\<lambda>ev. \<not> is_cancel ev) evs))
   \<and> transport_cancel_calls (state_after this s evs)
       = transport_cancel_calls s @ cancel_callbacks evs"
proof (induction evs arbitrary: s)
  case Nil
  show ?case by simp
next
  case (Cons ev evs)
  show ?case
  proof (cases ev)
    case (Cancel callback)
    have r: "registration_of (x509_cancel callback s) = registration_of s"
      by (simp add: registration_of_def x509_cancel_def)
    from trace_registration[OF r, of this "filter (\<lambda>ev. \<not> is_cancel ev) evs"]
         Cons.IH[of "x509_cancel callback s"] Cancel
    show ?thesis by (simp add: x509_cancel_def)
  next
    case (CertificateCallback err cert)
    with Cons.IH[of "fst (step this s ev)"] step_keeps_cancel_calls[of ev this s]
    show ?thesis by simp
  next
    case (ServiceResponse r)
    with Cons.IH[of "fst (step this s ev)"] step_keeps_cancel_calls[of ev this s]
    show ?thesis by simp
  next
    case PollTimerFired
    with Cons.IH[of "fst (step this s ev)"] step_keeps_cancel_calls[of ev this s]
    show ?thesis by simp
  next
    case (DisconnectCallback d)
    with Cons.IH[of "fst (step this s ev)"] step_keeps_cancel_calls[of ev this s]
    show ?thesis by simp
  qed
qed

text \<open>What a reachable state with an outstanding request looks like.\<close>

lemma outstanding_request:
  assumes "requests (loop (attempt_state this evs)) \<noteq> []"
  shows "active (loop (attempt_state this evs))
         \<and> \<not> certificate_pending (attempt_state this evs)
         \<and> disconnecting (attempt_state this evs) = None
         \<and> timers (loop (attempt_state this evs)) = []
         \<and> tl (requests (loop (attempt_state this evs))) = []"
  using inv_attempt[of this evs] assms
  by (cases "phase (loop (attempt_state this evs))")
     (auto simp: attempt_inv_def active_def length_Suc_conv split: if_splits option.splits)

lemma terminal_response:
  assumes "requests (loop (attempt_state this evs)) \<noteq> []"
    and "loop_response (defaultPollingInterval this) (loop (attempt_state this evs)) r
           = (l, [], Some (err, res))"
    and "\<not> active l"
  shows "attempt_trace this (evs @ ServiceResponse r # later)
           = attempt_trace this evs @ Disconnect #
               (if list_ex is_disconnect_callback later then disconnect_callback None err res else [])
         \<and> loop (attempt_state this (evs @ ServiceResponse r # later)) = l"
proof -
  let ?s = "attempt_state this evs"
  let ?s' = "?s\<lparr>loop := l, disconnecting := Some (err, res)\<rparr>"
  have st: "step this ?s (ServiceResponse r) = (?s', [Disconnect])"
    using assms(2) by (simp add: with_loop_def register_callback_def)
  have "\<not> certificate_pending ?s'" "\<not> active (loop ?s')"
    using outstanding_request[OF assms(1)] assms(3) by simp_all
  from settled_trace[OF this, of this later] st show ?thesis
    by (simp add: attempt_trace_append attempt_state_append)
qed

lemma callbacks_view: "callbacks acts = filter is_callback (teardown_view acts)"
  by (simp add: callbacks_def teardown_view_def) (rule filter_cong, auto)

lemma view_two:
  assumes "length v = 2" and "v ! 0 = Disconnect" and "is_callback (v ! Suc 0)"
  shows "length (filter is_callback v) = Suc 0"
proof -
  from assms(1) obtain a b where "v = [a, b]"
    by (auto simp: numeral_2_eq_2 length_Suc_conv)
  with assms(2,3) show ?thesis by simp
qed

lemma view_one:
  assumes "length v = Suc 0" and "list_all is_callback v"
  shows "length (filter is_callback v) = Suc 0"
proof -
  from assms(1) obtain a where "v = [a]" by (auto simp: length_Suc_conv)
  with assms(2) show ?thesis by simp
qed

lemma inv_callbacks:
  assumes "attempt_inv s v"
  shows "length (filter is_callback v) \<le> 1
         \<and> (quiescent s \<longrightarrow> length (filter is_callback v) = 1)"
  using assms
  by (cases "phase (loop s)")
     (auto simp: attempt_inv_def quiescent_def view_two view_one
           split: if_splits option.splits)

lemma preceded_by_view:
  "preceded_by P Q acts = preceded_by P Q (filter (\<lambda>a. P a \<or> Q a) acts)"
  by (induction acts) auto

text \<open>
  While no disconnect has answered, a loop that is Terminal has its disconnect pending.
\<close>

lemma unanswered_step:
  assumes "phase (loop s) = Terminal \<longrightarrow> disconnecting s \<noteq> None"
    and "\<not> is_disconnect_callback ev"
  shows "phase (loop (fst (step this s ev))) = Terminal
           \<longrightarrow> disconnecting (fst (step this s ev)) \<noteq> None"
proof (cases ev)
  case (CertificateCallback err cert)
  with assms(1) show ?thesis
    by (cases err) (auto simp: getCertificate_callback_def loop_register_def Let_def)
next
  case (ServiceResponse r)
  with assms(1) show ?thesis
    by (cases r)
       (auto simp: loop_response_def with_loop_def register_callback_def active_def Let_def)
next
  case PollTimerFired
  with assms(1) show ?thesis
    by (auto simp: loop_timer_fired_def split: option.splits)
next
  case (DisconnectCallback disconnectErr)
  with assms(2) show ?thesis by simp
next
  case (Cancel callback)
  with assms(1) show ?thesis by (simp add: x509_cancel_def)
qed

lemma unanswered_run:
  assumes "phase (loop s) = Terminal \<longrightarrow> disconnecting s \<noteq> None"
    and "\<not> list_ex is_disconnect_callback evs"
  shows "phase (loop (state_after this s evs)) = Terminal
           \<longrightarrow> disconnecting (state_after this s evs) \<noteq> None"
  using assms
proof (induction evs arbitrary: s)
  case Nil
  then show ?case by simp
next
  case (Cons ev evs)
  from Cons.prems(2) have e: "\<not> is_disconnect_callback ev"
    and r: "\<not> list_ex is_disconnect_callback evs" by simp_all
  from Cons.IH[OF unanswered_step[OF Cons.prems(1) e, of this] r] show ?case by simp
qed

lemma unanswered_attempt:
  assumes "phase (loop (attempt_state this evs)) = Terminal"
    and "\<not> list_ex is_disconnect_callback evs"
  shows "disconnecting (attempt_state this evs) \<noteq> None"
proof -
  have "phase (loop (fst (x509_register new_attempt))) = Terminal
          \<longrightarrow> disconnecting (fst (x509_register new_attempt)) \<noteq> None"
    by (simp add: x509_register_def new_attempt_def idle_loop_def)
  from unanswered_run[OF this assms(2), of this] assms(1) show ?thesis
    by (simp add: attempt_state_def)
qed

lemmas run_defs = attempt_state_def attempt_trace_def x509_register_def new_attempt_def
  idle_loop_def example_client_def example_request_def quiescent_def callbacks_def Let_def

subsection \<open>The completion callback\<close>

text \<open>
  C1, as the code has it. In a registration attempt started by \<open>register(callback)\<close> the
  caller's callback is never invoked twice, whatever the collaborators answer and whenever
  \<open>cancel\<close> is called; and as soon as nothing is outstanding any more (no certificate,
  request, poll timer or disconnect is awaited) it has been invoked exactly once. That
  covers the ways an attempt ends: assignment, a terminal failure status, a transport
  error, and a failure of \<open>getCertificate\<close>. A call of \<open>cancel\<close> is not one of them: what
  the attempt does, before and after the call, is what it does without the call, so
  \<open>cancel\<close> ends nothing and invokes no completion callback.
\<close>

theorem callback_exactly_once:
  "length (callbacks (attempt_trace this evs)) \<le> 1
   \<and> (quiescent (attempt_state this evs) \<longrightarrow> length (callbacks (attempt_trace this evs)) = 1)
   \<and> attempt_trace this (evs @ Cancel callback # later) = attempt_trace this (evs @ later)"
proof -
  have "trace this (fst (x509_register new_attempt)) (evs @ Cancel callback # later)
          = trace this (fst (x509_register new_attempt)) (evs @ later)"
    using cancels_apart[of this "fst (x509_register new_attempt)" "evs @ Cancel callback # later"]
          cancels_apart[of this "fst (x509_register new_attempt)" "evs @ later"]
    by simp
  then have "attempt_trace this (evs @ Cancel callback # later) = attempt_trace this (evs @ later)"
    by (simp add: attempt_trace_def)
  with inv_callbacks[OF inv_attempt[of this evs]] show ?thesis
    by (simp add: callbacks_view)
qed

text \<open>
  One run for each way an attempt ends: a failure of \<open>getCertificate\<close>, an assignment, a
  terminal failure status after a poll, and a transport error.
\<close>

theorem callback_exactly_once_witness:
  "quiescent (attempt_state example_client
      [CertificateCallback (Some (GenericError ''no certificate'')) []])
   \<and> length (callbacks (attempt_trace example_client
      [CertificateCallback (Some (GenericError ''no certificate'')) []])) = 1
   \<and> quiescent (attempt_state example_client
      [CertificateCallback None ''cert'',
       ServiceResponse (StatusAssigned \<lparr> registrationState = ''hub-1'' \<rparr>),
       DisconnectCallback None])
   \<and> length (callbacks (attempt_trace example_client
      [CertificateCallback None ''cert'',
       ServiceResponse (StatusAssigned \<lparr> registrationState = ''hub-1'' \<rparr>),
       DisconnectCallback None])) = 1
   \<and> quiescent (attempt_state example_client
      [CertificateCallback None ''cert'', ServiceResponse (StatusAssigning ''op-1'' (Some 5)),
       PollTimerFired, ServiceResponse (StatusFailed ''failed''), DisconnectCallback None])
   \<and> length (callbacks (attempt_trace example_client
      [CertificateCallback None ''cert'', ServiceResponse (StatusAssigning ''op-1'' (Some 5)),
       PollTimerFired, ServiceResponse (StatusFailed ''failed''), DisconnectCallback None])) = 1
   \<and> quiescent (attempt_state example_client
      [CertificateCallback None ''cert'',
       ServiceResponse (TransportFailure (GenericError ''connection failure'')),
       DisconnectCallback (Some (GenericError ''already closed''))])
   \<and> length (callbacks (attempt_trace example_client
      [CertificateCallback None ''cert'',
       ServiceResponse (TransportFailure (GenericError ''connection failure'')),
       DisconnectCallback (Some (GenericError ''already closed''))])) = 1"
proof -
  have qa: "quiescent (attempt_state example_client
      [CertificateCallback (Some (GenericError ''no certificate'')) []])"
    by (simp add: run_defs loop_defs)
  from callback_exactly_once [of example_client
      "[CertificateCallback (Some (GenericError ''no certificate'')) []]"] qa
  have ca: "length (callbacks (attempt_trace example_client
      [CertificateCallback (Some (GenericError ''no certificate'')) []])) = 1"
    by blast
  have qb: "quiescent (attempt_state example_client
      [CertificateCallback None ''cert'',
       ServiceResponse (StatusAssigned \<lparr> registrationState = ''hub-1'' \<rparr>),
       DisconnectCallback None])"
    by (simp add: run_defs loop_defs)
  from callback_exactly_once [of example_client
      "[CertificateCallback None ''cert'',
       ServiceResponse (StatusAssigned \<lparr> registrationState = ''hub-1'' \<rparr>),
       DisconnectCallback None]"] qb
  have cb: "length (callbacks (attempt_trace example_client
      [CertificateCallback None ''cert'',
       ServiceResponse (StatusAssigned \<lparr> registrationState = ''hub-1'' \<rparr>),
       DisconnectCallback None])) = 1"
    by blast
  have qc: "quiescent (attempt_state example_client
      [CertificateCallback None ''cert'', ServiceResponse (StatusAssigning ''op-1'' (Some 5)),
       PollTimerFired, ServiceResponse (StatusFailed ''failed''), DisconnectCallback None])"
    by (simp add: run_defs loop_defs)
  from callback_exactly_once [of example_client
      "[CertificateCallback None ''cert'', ServiceResponse (StatusAssigning ''op-1'' (Some 5)),
       PollTimerFired, ServiceResponse (StatusFailed ''failed''), DisconnectCallback None]"] qc
  have cc: "length (callbacks (attempt_trace example_client
      [CertificateCallback None ''cert'', ServiceResponse (StatusAssigning ''op-1'' (Some 5)),
       PollTimerFired, ServiceResponse (StatusFailed ''failed''), DisconnectCallback None])) = 1"
    by blast
  have qd: "quiescent (attempt_state example_client
      [CertificateCallback None ''cert'',
       ServiceResponse (TransportFailure (GenericError ''connection failure'')),
       DisconnectCallback (Some (GenericError ''already closed''))])"
    by (simp add: run_defs loop_defs)
  from callback_exactly_once [of example_client
      "[CertificateCallback None ''cert'',
       ServiceResponse (TransportFailure (GenericError ''connection failure'')),
       DisconnectCallback (Some (GenericError ''already closed''))]"] qd
  have cd: "length (callbacks (attempt_trace example_client
      [CertificateCallback None ''cert'',
       ServiceResponse (TransportFailure (GenericError ''connection failure'')),
       DisconnectCallback (Some (GenericError ''already closed''))])) = 1"
    by blast
  from qa ca qb cb qc cc qd cd show ?thesis by blast
qed

text \<open>
  C1 as stated fails for cancellation. After \<open>cancel\<close> the callback has not been invoked
  and the registration request is still outstanding, or the poll timer still pending; the
  attempt goes on polling, and here it ends with the assignment.
\<close>

theorem cancellation_without_callback_counterexample:
  "callbacks (attempt_trace example_client [CertificateCallback None ''cert'', Cancel 1]) = []
   \<and> requests (loop (attempt_state example_client [CertificateCallback None ''cert'', Cancel 1]))
       = [InitialRequest example_request]
   \<and> callbacks (attempt_trace example_client
        [CertificateCallback None ''cert'', ServiceResponse (StatusAssigning ''op-1'' None),
         Cancel 1]) = []
   \<and> timers (loop (attempt_state example_client
        [CertificateCallback None ''cert'', ServiceResponse (StatusAssigning ''op-1'' None),
         Cancel 1])) = [2]
   \<and> attempt_trace example_client
        [CertificateCallback None ''cert'', ServiceResponse (StatusAssigning ''op-1'' None),
         Cancel 1, PollTimerFired,
         ServiceResponse (StatusAssigned \<lparr> registrationState = ''hub-1'' \<rparr>),
         DisconnectCallback None]
       = [GetCertificate, SetAuthentication ''cert'', RegistrationRequestSent example_request,
          PollScheduled 2, StatusRequestSent ''op-1'', Disconnect, Callback None (Some ''hub-1'')]"
  by (simp add: run_defs loop_defs)

text \<open>
  C8. When \<open>getCertificate\<close> fails, the callback is invoked with that error and nothing
  else is ever done in the attempt, whatever happens later: no \<open>setAuthentication\<close>, no
  registration request, no disconnect.
\<close>

theorem getCertificate_failure:
  "attempt_trace this (CertificateCallback (Some e) cert # later) = [GetCertificate, Callback (Some e) None]"
proof -
  let ?s = "fst (step this (fst (x509_register new_attempt)) (CertificateCallback (Some e) cert))"
  have "\<not> certificate_pending ?s" "\<not> active (loop ?s)" "disconnecting ?s = None"
    by (simp_all add: x509_register_def new_attempt_def idle_loop_def getCertificate_callback_def active_def)
  from settled_trace[OF this(1,2), of this later] this(3)
  have "trace this ?s later = []" by simp
  then show ?thesis
    by (simp add: attempt_trace_def)
       (simp add: x509_register_def new_attempt_def getCertificate_callback_def)
qed

theorem getCertificate_failure_witness:
  "attempt_trace example_client
      [CertificateCallback (Some (GenericError ''no certificate'')) [], Cancel 1,
       ServiceResponse (StatusAssigning ''op-1'' None), PollTimerFired, DisconnectCallback None]
     = [GetCertificate, Callback (Some (GenericError ''no certificate'')) None]"
  using getCertificate_failure
          [of example_client "GenericError ''no certificate''" "[]"
              "[Cancel 1, ServiceResponse (StatusAssigning ''op-1'' None), PollTimerFired,
                DisconnectCallback None]"]
  by simp

subsection \<open>Teardown\<close>

text \<open>
  C2, as the code has it. When the attempt has reached the Terminal state, the transport
  has been disconnected exactly once, and no callback was invoked before that disconnect.
  The caller's callback is invoked from the callback of the disconnect (lines 58 to 68):
  in a run in which no callback of a disconnect has run yet, the caller's callback has
  not been invoked; while the disconnect is unanswered the attempt does nothing, and when
  the callback of the disconnect runs, whatever the disconnect reports, the caller's
  callback is invoked, once. When the disconnect has answered, the callback has been
  invoked exactly once.
\<close>

theorem disconnect_precedes_callback:
  assumes "phase (loop (attempt_state this evs)) = Terminal"
  shows "length (filter is_disconnect (attempt_trace this evs)) = 1
       \<and> preceded_by is_disconnect is_callback (attempt_trace this evs)
       \<and> (\<not> list_ex is_disconnect_callback evs \<longrightarrow> callbacks (attempt_trace this evs) = [])
       \<and> (case disconnecting (attempt_state this evs) of
             Some (err, result) \<Rightarrow>
               callbacks (attempt_trace this evs) = []
               \<and> length (disconnect_callback disconnectErr err result) = 1
               \<and> list_all is_callback (disconnect_callback disconnectErr err result)
               \<and> attempt_trace this (evs @ later)
                   = attempt_trace this evs
                       @ (if list_ex is_disconnect_callback later
                          then disconnect_callback disconnectErr err result else [])
           | None \<Rightarrow> length (callbacks (attempt_trace this evs)) = 1)"
proof -
  let ?s = "attempt_state this evs"
  let ?v = "teardown_view (attempt_trace this evs)"
  have f: "filter is_disconnect (attempt_trace this evs) = filter is_disconnect ?v"
    by (simp add: teardown_view_def) (rule filter_cong, auto)
  have p: "preceded_by is_disconnect is_callback (attempt_trace this evs)
           = preceded_by is_disconnect is_callback ?v"
    by (simp add: teardown_view_def
          preceded_by_view[of is_disconnect is_callback "attempt_trace this evs"])
  note inv = inv_attempt[of this evs]
  from inv assms have settled: "\<not> certificate_pending ?s" "\<not> active (loop ?s)"
    by (simp_all add: attempt_inv_def active_def)
  have u: "\<not> list_ex is_disconnect_callback evs \<longrightarrow> callbacks (attempt_trace this evs) = []"
  proof
    assume "\<not> list_ex is_disconnect_callback evs"
    from unanswered_attempt[OF assms this] obtain c where "disconnecting ?s = Some c" by blast
    with inv assms have "?v = [Disconnect]"
      by (cases c) (simp add: attempt_inv_def)
    then show "callbacks (attempt_trace this evs) = []" by (simp add: callbacks_view)
  qed
  show ?thesis
  proof (cases "disconnecting ?s")
    case None
    with inv assms have "\<exists>b. ?v = [Disconnect, b] \<and> is_callback b"
      by (auto simp: attempt_inv_def numeral_2_eq_2 length_Suc_conv)
    then obtain b where v: "?v = [Disconnect, b]" and b: "is_callback b" by blast
    from v b have "length (filter is_disconnect ?v) = 1"
      "preceded_by is_disconnect is_callback ?v" "length (filter is_callback ?v) = 1"
      by (auto elim: is_callback.elims)
    with None u show ?thesis unfolding f p by (simp add: callbacks_view)
  next
    case (Some c)
    obtain err result where c: "c = (err, result)" by (cases c)
    from inv assms Some c have v: "?v = [Disconnect]" and e: "err \<noteq> None \<or> result \<noteq> None"
      by (simp_all add: attempt_inv_def)
    from e have d: "length (disconnect_callback disconnectErr err result) = 1"
      "list_all is_callback (disconnect_callback disconnectErr err result)"
      "disconnect_callback None err result = disconnect_callback disconnectErr err result"
      by (auto simp: disconnect_callback_def split: option.splits)
    from settled_trace[OF settled, of this later] Some c d(3)
    have t: "attempt_trace this (evs @ later)
               = attempt_trace this evs
                   @ (if list_ex is_disconnect_callback later
                      then disconnect_callback disconnectErr err result else [])"
      by (simp add: attempt_trace_append)
    from v have "length (filter is_disconnect ?v) = 1"
      "preceded_by is_disconnect is_callback ?v" "filter is_callback ?v = []"
      by simp_all
    with Some c d(1,2) t u show ?thesis unfolding f p by (simp add: callbacks_view)
  qed
qed

text \<open>
  An assignment: Terminal with the disconnect unanswered and no callback yet; the callback
  comes with the answer of the disconnect, here a failure of the disconnect.
\<close>

theorem disconnect_precedes_callback_witness:
  "phase (loop (attempt_state example_client
      [CertificateCallback None ''cert'',
       ServiceResponse (StatusAssigned \<lparr> registrationState = ''hub-1'' \<rparr>)])) = Terminal
   \<and> callbacks (attempt_trace example_client
      [CertificateCallback None ''cert'',
       ServiceResponse (StatusAssigned \<lparr> registrationState = ''hub-1'' \<rparr>)]) = []
   \<and> attempt_trace example_client
      ([CertificateCallback None ''cert'',
        ServiceResponse (StatusAssigned \<lparr> registrationState = ''hub-1'' \<rparr>)]
         @ [PollTimerFired, DisconnectCallback (Some (GenericError ''already closed''))])
     = [GetCertificate, SetAuthentication ''cert'', RegistrationRequestSent example_request,
        Disconnect, Callback None (Some ''hub-1'')]
   \<and> preceded_by is_disconnect is_callback (attempt_trace example_client
      [CertificateCallback None ''cert'',
       ServiceResponse (StatusAssigned \<lparr> registrationState = ''hub-1'' \<rparr>)])"
proof -
  have t: "phase (loop (attempt_state example_client
      [CertificateCallback None ''cert'',
       ServiceResponse (StatusAssigned \<lparr> registrationState = ''hub-1'' \<rparr>)])) = Terminal"
    by (simp add: run_defs loop_defs)
  have d: "disconnecting (attempt_state example_client
      [CertificateCallback None ''cert'',
       ServiceResponse (StatusAssigned \<lparr> registrationState = ''hub-1'' \<rparr>)])
        = Some (None, Some \<lparr> registrationState = ''hub-1'' \<rparr>)"
    by (simp add: run_defs loop_defs)
  have a: "attempt_trace example_client
      [CertificateCallback None ''cert'',
       ServiceResponse (StatusAssigned \<lparr> registrationState = ''hub-1'' \<rparr>)]
       = [GetCertificate, SetAuthentication ''cert'', RegistrationRequestSent example_request,
          Disconnect]"
    by (simp add: run_defs loop_defs)
  from disconnect_precedes_callback
         [OF t, of "Some (GenericError ''already closed'')"
            "[PollTimerFired, DisconnectCallback (Some (GenericError ''already closed''))]"]
       t d a
  show ?thesis by (simp add: disconnect_callback_def)
qed

text \<open>
  C2 as stated fails: in the run that ends with an assignment the disconnect is made
  before the caller's callback is invoked, not after.
\<close>

theorem callback_before_disconnect_counterexample:
  "phase (loop (attempt_state example_client
      [CertificateCallback None ''cert'',
       ServiceResponse (StatusAssigned \<lparr> registrationState = ''hub-1'' \<rparr>),
       DisconnectCallback None])) = Terminal
   \<and> attempt_trace example_client
      [CertificateCallback None ''cert'',
       ServiceResponse (StatusAssigned \<lparr> registrationState = ''hub-1'' \<rparr>),
       DisconnectCallback None]
     = [GetCertificate, SetAuthentication ''cert'', RegistrationRequestSent example_request,
        Disconnect, Callback None (Some ''hub-1'')]
   \<and> \<not> preceded_by is_callback is_disconnect (attempt_trace example_client
      [CertificateCallback None ''cert'',
       ServiceResponse (StatusAssigned \<lparr> registrationState = ''hub-1'' \<rparr>),
       DisconnectCallback None])"
  by (simp add: run_defs loop_defs)

subsection \<open>Cancellation\<close>

text \<open>
  C3, as the code has it. \<open>cancel\<close> keeps no state of its own: every call, the first and
  every later one, before or after the attempt has ended, calls \<open>cancel\<close> on the transport
  once, with the callback it was given, and does nothing else. So the transport has been
  called once for each call of \<open>cancel\<close>, in their order, and the registration attempt is in
  the state, and has done, what it would without any call of \<open>cancel\<close>: a call of \<open>cancel\<close>
  produces no cancellation outcome by itself.
\<close>

theorem cancel_calls_transport_only:
  "step this s (Cancel callback)
     = (s\<lparr>transport_cancel_calls := transport_cancel_calls s @ [callback]\<rparr>, [])
   \<and> transport_cancel_calls (attempt_state this evs) = cancel_callbacks evs
   \<and> registration_of (attempt_state this evs)
       = registration_of (attempt_state this (filter (\<lambda>ev. \<not> is_cancel ev) evs))
   \<and> attempt_trace this evs = attempt_trace this (filter (\<lambda>ev. \<not> is_cancel ev) evs)"
  using cancels_apart[of this "fst (x509_register new_attempt)" evs]
  by (simp add: attempt_state_def attempt_trace_def x509_cancel_def)
     (simp add: x509_register_def new_attempt_def)

theorem cancel_calls_transport_only_witness:
  "transport_cancel_calls (attempt_state example_client
      [CertificateCallback None ''cert'', Cancel 1,
       ServiceResponse (StatusAssigned \<lparr> registrationState = ''hub-1'' \<rparr>),
       DisconnectCallback None, Cancel 2]) = [1, 2]
   \<and> attempt_trace example_client
      [CertificateCallback None ''cert'', Cancel 1,
       ServiceResponse (StatusAssigned \<lparr> registrationState = ''hub-1'' \<rparr>),
       DisconnectCallback None, Cancel 2]
     = [GetCertificate, SetAuthentication ''cert'', RegistrationRequestSent example_request,
        Disconnect, Callback None (Some ''hub-1'')]"
proof -
  have "attempt_trace example_client
          (filter (\<lambda>ev. \<not> is_cancel ev)
            [CertificateCallback None ''cert'', Cancel 1,
             ServiceResponse (StatusAssigned \<lparr> registrationState = ''hub-1'' \<rparr>),
             DisconnectCallback None, Cancel 2])
        = [GetCertificate, SetAuthentication ''cert'', RegistrationRequestSent example_request,
           Disconnect, Callback None (Some ''hub-1'')]"
    by (simp add: run_defs loop_defs)
  with cancel_calls_transport_only
         [of example_client new_attempt 1
            "[CertificateCallback None ''cert'', Cancel 1,
              ServiceResponse (StatusAssigned \<lparr> registrationState = ''hub-1'' \<rparr>),
              DisconnectCallback None, Cancel 2]"]
  show ?thesis by simp
qed

text \<open>
  C3 as stated fails. Two calls of \<open>cancel\<close> while the registration request is outstanding:
  the transport is called twice, so the second call is not a no-op, and no cancellation
  outcome is produced, the callback is not invoked and the request stays outstanding. And
  after the attempt has ended with an assignment, a second \<open>cancel\<close> still calls the
  transport and leaves another state than the first.
\<close>

theorem second_cancel_counterexample:
  "transport_cancel_calls (attempt_state example_client
      [CertificateCallback None ''cert'', Cancel 1, Cancel 2]) = [1, 2]
   \<and> callbacks (attempt_trace example_client
      [CertificateCallback None ''cert'', Cancel 1, Cancel 2]) = []
   \<and> requests (loop (attempt_state example_client
      [CertificateCallback None ''cert'', Cancel 1, Cancel 2])) = [InitialRequest example_request]
   \<and> transport_cancel_calls (attempt_state example_client
      [CertificateCallback None ''cert'',
       ServiceResponse (StatusAssigned \<lparr> registrationState = ''hub-1'' \<rparr>),
       DisconnectCallback None, Cancel 1, Cancel 2]) = [1, 2]
   \<and> attempt_state example_client
      [CertificateCallback None ''cert'',
       ServiceResponse (StatusAssigned \<lparr> registrationState = ''hub-1'' \<rparr>),
       DisconnectCallback None, Cancel 1, Cancel 2]
     \<noteq> attempt_state example_client
      [CertificateCallback None ''cert'',
       ServiceResponse (StatusAssigned \<lparr> registrationState = ''hub-1'' \<rparr>),
       DisconnectCallback None, Cancel 1]"
  by (simp add: run_defs loop_defs)

subsection \<open>Responses of the service\<close>

text \<open>
  C4, as the code has it. A transport error that answers the outstanding request (the
  registration request or a status check) makes the loop Terminal at once, with no retry:
  from then on the attempt only disconnects and, when the disconnect has answered, invokes
  the callback with that error; no poll is scheduled and no request is sent any more. The
  failure reaches the caller with the answer of the disconnect, not with the error itself.
\<close>

theorem transport_error_fails_without_retry:
  assumes "requests (loop (attempt_state this evs)) \<noteq> []"
  shows "attempt_trace this (evs @ ServiceResponse (TransportFailure e) # later)
           = attempt_trace this evs @ Disconnect #
               (if list_ex is_disconnect_callback later then [Callback (Some e) None] else [])
       \<and> phase (loop (attempt_state this (evs @ ServiceResponse (TransportFailure e) # later))) = Terminal"
proof -
  let ?l = "loop (attempt_state this evs)"
  note o = outstanding_request[OF assms]
  have a: "loop_response (defaultPollingInterval this) ?l (TransportFailure e)
          = (?l\<lparr>phase := Terminal, requests := []\<rparr>, [], Some (Some e, None))"
    using o assms by (simp add: loop_response_def)
  have n: "\<not> active (?l\<lparr>phase := Terminal, requests := []\<rparr>)" by (simp add: active_def)
  from terminal_response[OF assms a n, of later]
  show ?thesis by (simp add: disconnect_callback_def)
qed

theorem transport_error_fails_without_retry_witness:
  "requests (loop (attempt_state example_client [CertificateCallback None ''cert''])) \<noteq> []
   \<and> attempt_trace example_client
        ([CertificateCallback None ''cert'']
           @ ServiceResponse (TransportFailure (GenericError ''connection failure''))
             # [PollTimerFired, DisconnectCallback None, PollTimerFired])
     = [GetCertificate, SetAuthentication ''cert'', RegistrationRequestSent example_request,
        Disconnect, Callback (Some (GenericError ''connection failure'')) None]"
proof -
  have r: "requests (loop (attempt_state example_client [CertificateCallback None ''cert''])) \<noteq> []"
    by (simp add: run_defs loop_defs)
  have "attempt_trace example_client [CertificateCallback None ''cert'']
          = [GetCertificate, SetAuthentication ''cert'', RegistrationRequestSent example_request]"
    by (simp add: run_defs loop_defs)
  with transport_error_fails_without_retry
         [OF r, of "GenericError ''connection failure''"
            "[PollTimerFired, DisconnectCallback None, PollTimerFired]"] r
  show ?thesis by simp
qed

text \<open>
  C4 as stated fails in "immediately": the registration request has failed with a
  connection failure, the attempt has disconnected, and the failure has not reached the
  caller; nothing reaches the caller before the disconnect answers.
\<close>

theorem transport_error_not_immediate_counterexample:
  "attempt_trace example_client
      [CertificateCallback None ''cert'',
       ServiceResponse (TransportFailure (GenericError ''connection failure''))]
     = [GetCertificate, SetAuthentication ''cert'', RegistrationRequestSent example_request,
        Disconnect]
   \<and> callbacks (attempt_trace example_client
      [CertificateCallback None ''cert'',
       ServiceResponse (TransportFailure (GenericError ''connection failure'')),
       PollTimerFired, Cancel 1]) = []
   \<and> \<not> quiescent (attempt_state example_client
      [CertificateCallback None ''cert'',
       ServiceResponse (TransportFailure (GenericError ''connection failure''))])"
  by (simp add: run_defs loop_defs)



text \<open>
  C6. An \<open>assigning\<close> response that answers the outstanding request schedules exactly one
  poll, after the retry-after hint of the response in seconds, or after the default delay
  when the response has no hint: that timer is then the only one pending and no request
  is outstanding; when it fires, one status check is sent, with the operation id of the
  response.
\<close>

theorem assigning_schedules_one_poll:
  assumes "requests (loop (attempt_state this evs)) \<noteq> []"
  shows "attempt_trace this (evs @ [ServiceResponse (StatusAssigning opid retry_after)])
           = attempt_trace this evs
               @ [PollScheduled (case retry_after of Some n \<Rightarrow> n | None \<Rightarrow> defaultPollingInterval this)]
       \<and> timers (loop (attempt_state this (evs @ [ServiceResponse (StatusAssigning opid retry_after)])))
           = [case retry_after of Some n \<Rightarrow> n | None \<Rightarrow> defaultPollingInterval this]
       \<and> requests (loop (attempt_state this (evs @ [ServiceResponse (StatusAssigning opid retry_after)]))) = []
       \<and> attempt_trace this (evs @ [ServiceResponse (StatusAssigning opid retry_after), PollTimerFired])
           = attempt_trace this evs
               @ [PollScheduled (case retry_after of Some n \<Rightarrow> n | None \<Rightarrow> defaultPollingInterval this),
                  StatusRequestSent opid]"
  using outstanding_request[OF assms] assms
  by (simp add: attempt_trace_append attempt_state_append loop_response_def with_loop_def
        loop_timer_fired_def Let_def)

theorem assigning_schedules_one_poll_witness:
  "requests (loop (attempt_state example_client [CertificateCallback None ''cert''])) \<noteq> []
   \<and> attempt_trace example_client
        ([CertificateCallback None ''cert''] @ [ServiceResponse (StatusAssigning ''op-1'' None)])
     = [GetCertificate, SetAuthentication ''cert'', RegistrationRequestSent example_request,
        PollScheduled 2]
   \<and> timers (loop (attempt_state example_client
        ([CertificateCallback None ''cert''] @ [ServiceResponse (StatusAssigning ''op-1'' None)])))
     = [2]"
proof -
  have r: "requests (loop (attempt_state example_client [CertificateCallback None ''cert''])) \<noteq> []"
    by (simp add: run_defs loop_defs)
  have "attempt_trace example_client [CertificateCallback None ''cert'']
          = [GetCertificate, SetAuthentication ''cert'', RegistrationRequestSent example_request]"
    by (simp add: run_defs loop_defs)
  with assigning_schedules_one_poll [OF r, of "''op-1''" None] r
  show ?thesis by (simp add: example_client_def)
qed

subsection \<open>Timers and requests\<close>

text \<open>
  C7. After every event of a registration attempt at most one poll timer is pending, at
  most one request is outstanding, and never both a timer and a request.
\<close>

theorem one_pending_timer_or_request:
  "length (timers (loop (attempt_state this evs))) \<le> 1
   \<and> length (requests (loop (attempt_state this evs))) \<le> 1
   \<and> \<not> (timers (loop (attempt_state this evs)) \<noteq> [] \<and> requests (loop (attempt_state this evs)) \<noteq> [])"
  using inv_attempt[of this evs]
  by (cases "phase (loop (attempt_state this evs))")
     (auto simp: attempt_inv_def split: if_splits option.splits)

theorem one_pending_timer_or_request_witness:
  "length (timers (loop (attempt_state example_client
      [CertificateCallback None ''cert'', ServiceResponse (StatusAssigning ''op-1'' (Some 5))]))) \<le> 1
   \<and> length (requests (loop (attempt_state example_client
      [CertificateCallback None ''cert'', ServiceResponse (StatusAssigning ''op-1'' (Some 5))]))) \<le> 1
   \<and> \<not> (timers (loop (attempt_state example_client
      [CertificateCallback None ''cert'', ServiceResponse (StatusAssigning ''op-1'' (Some 5))])) \<noteq> []
       \<and> requests (loop (attempt_state example_client
      [CertificateCallback None ''cert'', ServiceResponse (StatusAssigning ''op-1'' (Some 5))])) \<noteq> [])"
  using one_pending_timer_or_request
          [of example_client
              "[CertificateCallback None ''cert'', ServiceResponse (StatusAssigning ''op-1'' (Some 5))]"]
  by blast

end
